theory Spec2Isabelle
  imports Main "HOL-Library.Sublist"
begin

section \<open>Go values used by the reservation data source\<close>

text \<open>
  A Go \<^verbatim>\<open>error\<close> is an interface value: a dynamic type together with the text that
  its \<^verbatim>\<open>Error()\<close> method returns. The data source only ever calls \<^verbatim>\<open>Error()\<close>.
\<close>

datatype go_error = GoError (dyn_type: string) (Error: string)

text \<open>
  \<^verbatim>\<open>strings.Contains(s, substr)\<close>: \<^verbatim>\<open>substr\<close> occurs in \<^verbatim>\<open>s\<close> as a contiguous run of
  bytes; the empty string occurs in every string.
\<close>

fun Contains :: "string \<Rightarrow> string \<Rightarrow> bool" where
  "Contains [] substr = (substr = [])"
| "Contains (c # s) substr = (prefix substr (c # s) \<or> Contains s substr)"

section \<open>Values of the plugin framework\<close>

text \<open>
  \<^verbatim>\<open>types.String\<close> is null, unknown or a known string; \<^verbatim>\<open>ValueString()\<close> is the known
  string, and the empty string for null and unknown.
\<close>

datatype tf_String = StringNull | StringUnknown | StringValue string

fun ValueString :: "tf_String \<Rightarrow> string" where
  "ValueString StringNull = []"
| "ValueString StringUnknown = []"
| "ValueString (StringValue s) = s"

datatype tf_List = ListNull | ListUnknown | ListValue "tf_String list"

text \<open>\<^verbatim>\<open>timetypes.RFC3339\<close> wraps a framework string value.\<close>

datatype tf_RFC3339 = RFC3339 tf_String

datatype tf_Map = MapNull | MapUnknown | MapValue "string \<rightharpoonup> tf_String"

text \<open>
  Diagnostics: a list of entries with a severity, a summary and a detail.
  \<^verbatim>\<open>Append\<close> skips an entry that the list already holds; \<^verbatim>\<open>AddError\<close> appends one error
  entry; \<^verbatim>\<open>HasError\<close> looks for an entry of severity error.
\<close>

datatype Diagnostic =
    ErrorDiagnostic (Summary: string) (Detail: string)
  | WarningDiagnostic (Summary: string) (Detail: string)

fun HasError :: "Diagnostic list \<Rightarrow> bool" where
  "HasError [] = False"
| "HasError (ErrorDiagnostic s t # ds) = True"
| "HasError (WarningDiagnostic s t # ds) = HasError ds"

fun Append :: "Diagnostic list \<Rightarrow> Diagnostic list \<Rightarrow> Diagnostic list" where
  "Append diags [] = diags"
| "Append diags (d # ins) = Append (if d \<in> set diags then diags else diags @ [d]) ins"

definition AddError :: "Diagnostic list \<Rightarrow> string \<Rightarrow> string \<Rightarrow> Diagnostic list" where
  "AddError diags summary detail = Append diags [ErrorDiagnostic summary detail]"

section \<open>The data model\<close>

text \<open>
  The state model of the data source (\<^verbatim>\<open>reservationDataSourceModel\<close>). The attribute
  \<^verbatim>\<open>Id\<close> is written \<open>Id_attr\<close> here.
\<close>

record reservationDataSourceModel =
  Space :: tf_String
  Blocks :: tf_List
  Id_attr :: tf_String
  Cidr :: tf_String
  Description :: tf_String
  CreatedOn :: tf_RFC3339
  CreatedBy :: tf_String
  SettledOn :: tf_RFC3339
  SettledBy :: tf_String
  Status :: tf_String
  Tags :: tf_Map

text \<open>
  Modelled from the spec: the type \<^verbatim>\<open>ipamclient.Reservation\<close> is declared in the client
  package, which lies outside reservation_data_source.go. The specification lists its
  attributes: id, cidr, description, createdOn, createdBy, settledOn, settledBy, status
  and tags, the tags being a mapping from string to string. \<^verbatim>\<open>Read\<close> hands the tags to
  the framework as a Go map of strings, and a Go map may be \<^verbatim>\<open>nil\<close>: \<open>None\<close> is the nil
  map. The representation of the two timestamps as the backend delivers them is left
  open (\<open>'raw\<close>).
\<close>

record 'raw Reservation =
  res_id :: string
  cidr :: string
  description :: string
  createdOn :: 'raw
  createdBy :: string
  settledOn :: 'raw
  settledBy :: string
  status :: string
  tags :: "(string \<rightharpoonup> string) option"

text \<open>
  Modelled from the spec: the type \<^verbatim>\<open>reservationResourceModel\<close> belongs to the reservation
  resource, which lies outside reservation_data_source.go. \<^verbatim>\<open>Read\<close> takes these eight fields
  from it.
\<close>

record reservationResourceModel =
  rm_Id :: tf_String
  rm_Cidr :: tf_String
  rm_Description :: tf_String
  rm_CreatedOn :: tf_RFC3339
  rm_CreatedBy :: tf_String
  rm_SettledOn :: tf_RFC3339
  rm_SettledBy :: tf_String
  rm_Status :: tf_String

text \<open>
  Modelled from the spec: \<^verbatim>\<open>flattenReservation\<close> is defined with the reservation resource,
  which lies outside reservation_data_source.go. The specification describes the projection as
  field by field, with no transformation beyond type adaptation: strings are passed
  through and the two timestamps are parsed. The parser is the parameter \<open>parse\<close>.
\<close>

definition flattenReservation ::
  "('raw \<Rightarrow> tf_RFC3339) \<Rightarrow> 'raw Reservation \<Rightarrow> reservationResourceModel" where
  "flattenReservation parse reservation =
     \<lparr> rm_Id = StringValue (res_id reservation),
       rm_Cidr = StringValue (cidr reservation),
       rm_Description = StringValue (description reservation),
       rm_CreatedOn = parse (createdOn reservation),
       rm_CreatedBy = StringValue (createdBy reservation),
       rm_SettledOn = parse (settledOn reservation),
       rm_SettledBy = StringValue (settledBy reservation),
       rm_Status = StringValue (status reservation) \<rparr>"

text \<open>
  \<^verbatim>\<open>types.MapValueFrom(ctx, types.StringType, m)\<close> of the framework, for a Go map of
  strings: the nil map becomes the null map value; any other map becomes a known map
  value that holds every entry as a known framework string under the same key. The
  second component is the diagnostics of the conversion, of which there are none for a
  map of strings; \<^verbatim>\<open>Read\<close> drops them.
\<close>

definition MapValueFrom :: "(string \<rightharpoonup> string) option \<Rightarrow> tf_Map \<times> Diagnostic list" where
  "MapValueFrom m =
     (case m of
        None \<Rightarrow> (MapNull, [])
      | Some entries \<Rightarrow>
          (MapValue (\<lambda>k. case entries k of None \<Rightarrow> None | Some v \<Rightarrow> Some (StringValue v)),
           []))"

section \<open>What the data source is given\<close>

text \<open>
  The pieces that \<^verbatim>\<open>Read\<close> calls and that live outside the file:
  \<^item> \<open>GetReservation\<close>: the method of \<^verbatim>\<open>*ipamclient.Client\<close>, applied to the client, the
    space, the block and the id; it returns Go's pair of a reservation pointer (\<open>None\<close> is
    \<^verbatim>\<open>nil\<close>) and an error (\<open>None\<close> is \<^verbatim>\<open>nil\<close>);
  \<^item> \<open>ElementsAs\<close>: the conversion of the \<^verbatim>\<open>blocks\<close> list value into a Go slice of strings,
    with the diagnostics of the conversion;
  \<^item> \<open>State_Set\<close>: \<^verbatim>\<open>resp.State.Set\<close>, from the stored state and the model to the
    diagnostics and the new stored state;
  \<^item> \<open>parseTimestamp\<close>: the timestamp parser of \<^verbatim>\<open>flattenReservation\<close>.
\<close>

record ('c, 'raw, 'st) externals =
  GetReservation ::
    "'c \<Rightarrow> string \<Rightarrow> string \<Rightarrow> string \<Rightarrow> 'raw Reservation option \<times> go_error option"
  ElementsAs :: "tf_List \<Rightarrow> Diagnostic list \<times> string list"
  State_Set :: "'st \<Rightarrow> reservationDataSourceModel \<Rightarrow> Diagnostic list \<times> 'st"
  parseTimestamp :: "'raw \<Rightarrow> tf_RFC3339"

text \<open>The data source holds the client pointer (\<open>'c\<close> is the type of such pointers).\<close>

record 'c reservationDataSource =
  client :: 'c

text \<open>
  \<^verbatim>\<open>req.Config.Get(ctx, &state)\<close> yields diagnostics and leaves the decoded configuration
  in \<^verbatim>\<open>state\<close>; the request is modelled by this pair.
\<close>

datatype Config = ConfigData (Get: "Diagnostic list \<times> reservationDataSourceModel")

record ReadRequest =
  Config :: Config

text \<open>
  Both responses carry the diagnostics; the response of \<^verbatim>\<open>Read\<close> carries the stored state
  as well (\<open>'st\<close> is the type of what the framework stores).
\<close>

record ConfigureResponse =
  Diagnostics :: "Diagnostic list"

record 'st ReadResponse = ConfigureResponse +
  State :: 'st

text \<open>
  \<^verbatim>\<open>req.ProviderData\<close> is a value of type \<^verbatim>\<open>any\<close>: the nil interface, a client pointer, or
  a value of another dynamic type, of which only the type name is used (by \<^verbatim>\<open>%T\<close>).
\<close>

datatype 'c ProviderData = nil | ClientPointer 'c | OtherType string

record 'c ConfigureRequest =
  ProviderData :: "'c ProviderData"

section \<open>Read\<close>

text \<open>
  The loop over the blocks (lines 130 to 152). It ends in one of two ways: by the
  \<^verbatim>\<open>return\<close> after the read failure has been added to the response, or by leaving the
  loop (by \<^verbatim>\<open>break\<close>, or with the blocks exhausted) with the locals \<^verbatim>\<open>reservation\<close> and
  \<^verbatim>\<open>lastErr\<close>. The second component of the result lists the arguments of the calls of
  \<open>GetReservation\<close>, in the order they were made.
\<close>

datatype ('raw, 'st) loop_end =
    Returned "'st ReadResponse"
  | Exited "'raw Reservation option" "go_error option"

type_synonym call = "string \<times> string \<times> string"

fun search ::
  "('c, 'raw, 'st) externals \<Rightarrow> 'c reservationDataSource \<Rightarrow> reservationDataSourceModel \<Rightarrow>
   'st ReadResponse \<Rightarrow> go_error option \<Rightarrow> string list \<Rightarrow> ('raw, 'st) loop_end \<times> call list" where
  "search ext d state resp lastErr [] = (Exited None lastErr, [])"
| "search ext d state resp lastErr (block # rest) =
     (let this = (ValueString (Space state), block, ValueString (Id_attr state)) in
      case GetReservation ext (client d)
             (ValueString (Space state)) block (ValueString (Id_attr state)) of
        (r, Some err) \<Rightarrow>
          if Contains (Error err) ''Reservation not found''
          then (case search ext d state resp (Some err) rest of
                  (e, calls) \<Rightarrow> (e, this # calls))
          else (Returned (resp\<lparr>Diagnostics :=
                  AddError (Diagnostics resp) ''Unable to Read AzureIpam Reservation''
                    (''space='' @ ValueString (Space state) @ '' block='' @ block
                       @ '' error='' @ Error err)\<rparr>),
                [this])
      | (r, None) \<Rightarrow> (Exited r lastErr, [this]))"

text \<open>
  The mapping of the reservation found to the state model (lines 163 to 174): the
  attributes \<^verbatim>\<open>space\<close> and \<^verbatim>\<open>blocks\<close> are not assigned.
\<close>

definition assign_state ::
  "('c, 'raw, 'st) externals \<Rightarrow> 'raw Reservation \<Rightarrow> reservationDataSourceModel \<Rightarrow>
   reservationDataSourceModel" where
  "assign_state ext reservation state =
     (let model = flattenReservation (parseTimestamp ext) reservation in
      state\<lparr> Id_attr := rm_Id model,
             Cidr := rm_Cidr model,
             Description := rm_Description model,
             CreatedOn := rm_CreatedOn model,
             CreatedBy := rm_CreatedBy model,
             SettledOn := rm_SettledOn model,
             SettledBy := rm_SettledBy model,
             Status := rm_Status model,
             Tags := fst (MapValueFrom (tags reservation)) \<rparr>)"

text \<open>
  \<^verbatim>\<open>Read\<close>: the response as it is left, and the calls made to the backend.
\<close>

definition Read ::
  "('c, 'raw, 'st) externals \<Rightarrow> 'c reservationDataSource \<Rightarrow> ReadRequest \<Rightarrow>
   'st ReadResponse \<Rightarrow> 'st ReadResponse \<times> call list" where
  "Read ext d req resp0 =
     (let (cdiags, state) = Get (Config req);
          resp = resp0\<lparr>Diagnostics := Append (Diagnostics resp0) cdiags\<rparr>;
          (diags, blocks) = ElementsAs ext (Blocks state)
      in
      if HasError diags
      then (resp\<lparr>Diagnostics := Append (Diagnostics resp) diags\<rparr>, [])
      else if length blocks = 0
      then (resp\<lparr>Diagnostics :=
              AddError (Diagnostics resp) ''Invalid Configuration''
                ''At least one block must be specified in 'blocks'.''\<rparr>, [])
      else
        (case search ext d state resp None blocks of
           (Returned resp', calls) \<Rightarrow> (resp', calls)
         | (Exited None lastErr, calls) \<Rightarrow>
             (resp\<lparr>Diagnostics :=
                AddError (Diagnostics resp) ''Reservation Not Found''
                  (''Reservation with id '' @ [CHR 0x27] @ ValueString (Id_attr state)
                     @ [CHR 0x27] @ '' was not found in provided blocks.'')\<rparr>, calls)
         | (Exited (Some reservation) lastErr, calls) \<Rightarrow>
             (let (sdiags, st) =
                    State_Set ext (State resp) (assign_state ext reservation state)
              in (resp\<lparr>Diagnostics := Append (Diagnostics resp) sdiags, State := st\<rparr>,
                  calls))))"

section \<open>Configure\<close>

definition Configure ::
  "'c reservationDataSource \<Rightarrow> 'c ConfigureRequest \<Rightarrow> ConfigureResponse \<Rightarrow>
   'c reservationDataSource \<times> ConfigureResponse" where
  "Configure d req resp =
     (case ProviderData req of
        nil \<Rightarrow> (d, resp)
      | OtherType T \<Rightarrow>
          (d, resp\<lparr>Diagnostics :=
                 AddError (Diagnostics resp) ''Unexpected Data Source Configure Type''
                   (''Expected *azureipam.Client, got: '' @ T
                      @ ''. Please report this issue to the provider developers.'')\<rparr>)
      | ClientPointer c \<Rightarrow> (d\<lparr>client := c\<rparr>, resp))"

section \<open>Vocabulary of the statements\<close>

text \<open>
  The arguments of the call that \<^verbatim>\<open>Read\<close> makes for a block, the answer of the backend to
  that call, and the test of lines 138 and 140 on an answer: the error is not \<^verbatim>\<open>nil\<close> and
  its text contains \<^verbatim>\<open>Reservation not found\<close>.
\<close>

definition call_of :: "reservationDataSourceModel \<Rightarrow> string \<Rightarrow> call" where
  "call_of state block = (ValueString (Space state), block, ValueString (Id_attr state))"

definition reply ::
  "('c, 'raw, 'st) externals \<Rightarrow> 'c reservationDataSource \<Rightarrow> reservationDataSourceModel \<Rightarrow>
   string \<Rightarrow> 'raw Reservation option \<times> go_error option" where
  "reply ext d state block =
     GetReservation ext (client d) (ValueString (Space state)) block (ValueString (Id_attr state))"

fun not_found :: "'a option \<times> go_error option \<Rightarrow> bool" where
  "not_found (r, Some err) = Contains (Error err) ''Reservation not found''"
| "not_found (r, None) = False"

section \<open>Sample inputs\<close>

text \<open>
  A configuration with space \<^verbatim>\<open>s1\<close>, the given blocks and the given id; a request that
  decodes to it without diagnostics; an empty response; a data source.
\<close>

definition sample_config :: "string list \<Rightarrow> string \<Rightarrow> reservationDataSourceModel" where
  "sample_config blocks ident =
     \<lparr> Space = StringValue ''s1'', Blocks = ListValue (map StringValue blocks),
       Id_attr = StringValue ident, Cidr = StringNull, Description = StringNull,
       CreatedOn = RFC3339 StringNull, CreatedBy = StringNull,
       SettledOn = RFC3339 StringNull, SettledBy = StringNull,
       Status = StringNull, Tags = MapNull \<rparr>"

definition sample_request :: "string list \<Rightarrow> string \<Rightarrow> ReadRequest" where
  "sample_request blocks ident = \<lparr> Config = ConfigData ([], sample_config blocks ident) \<rparr>"

definition sample_response :: "reservationDataSourceModel option ReadResponse" where
  "sample_response = \<lparr> Diagnostics = [], State = None \<rparr>"

definition sample_source :: "unit reservationDataSource" where
  "sample_source = \<lparr> client = () \<rparr>"

text \<open>
  Externals around a backend that answers by block: the list conversion yields the known
  strings of a list value, storing the state succeeds, and a raw timestamp is a string
  that is taken as it is.
\<close>

definition sample_externals ::
  "(string \<Rightarrow> string Reservation option \<times> go_error option) \<Rightarrow>
   (unit, string, reservationDataSourceModel option) externals" where
  "sample_externals answer =
     \<lparr> GetReservation = (\<lambda>c space block ident. answer block),
       ElementsAs = (\<lambda>l. case l of ListValue xs \<Rightarrow> ([], map ValueString xs)
                           | ListNull \<Rightarrow> ([], [])
                           | ListUnknown \<Rightarrow>
                               ([ErrorDiagnostic ''Value Conversion Error'' ''unknown value''], [])),
       State_Set = (\<lambda>st m. ([], Some m)),
       parseTimestamp = (\<lambda>raw. RFC3339 (StringValue raw)) \<rparr>"

definition missing :: "string \<Rightarrow> string Reservation option \<times> go_error option" where
  "missing wording = (None, Some (GoError ''*errors.errorString'' wording))"

text \<open>
  The scenario of the specification: the id \<^verbatim>\<open>X\<close> is not in \<^verbatim>\<open>b1\<close> and is found in
  \<^verbatim>\<open>b2\<close> with cidr \<^verbatim>\<open>10.1.2.0/28\<close>.
\<close>

definition scenario_reservation :: "string Reservation" where
  "scenario_reservation =
     \<lparr> res_id = ''X'', cidr = ''10.1.2.0/28'', description = ''spoke'',
       createdOn = ''2024-05-01T10:00:00Z'', createdBy = ''ops@example.org'',
       settledOn = [], settledBy = [], status = ''wait'',
       tags = Some [''X-IPAM-RES-ID'' \<mapsto> ''X''] \<rparr>"

definition scenario_answer :: "string \<Rightarrow> string Reservation option \<times> go_error option" where
  "scenario_answer block =
     (if block = ''b2'' then (Some scenario_reservation, None)
      else missing ''Reservation not found'')"

text \<open>The reservation of the round trip of the specification, found in the first block.\<close>

definition roundtrip_reservation :: "string Reservation" where
  "roundtrip_reservation =
     \<lparr> res_id = ''r1'', cidr = ''10.0.0.0/24'', description = [],
       createdOn = [], createdBy = [], settledOn = [], settledBy = [], status = ''wait'',
       tags = Some [''X-IPAM-RES-ID'' \<mapsto> ''r1''] \<rparr>"

definition roundtrip_answer :: "string \<Rightarrow> string Reservation option \<times> go_error option" where
  "roundtrip_answer block = (Some roundtrip_reservation, None)"

text \<open>A reservation that the backend delivers without tags (the nil map).\<close>

definition untagged_reservation :: "string Reservation" where
  "untagged_reservation =
     \<lparr> res_id = ''r2'', cidr = ''10.0.1.0/24'', description = [],
       createdOn = [], createdBy = [], settledOn = [], settledBy = [], status = ''wait'',
       tags = None \<rparr>"

definition untagged_answer :: "string \<Rightarrow> string Reservation option \<times> go_error option" where
  "untagged_answer block = (Some untagged_reservation, None)"


text \<open>A backend that misses in \<^verbatim>\<open>b1\<close> and refuses every other block.\<close>

definition refusing_answer :: "string \<Rightarrow> string Reservation option \<times> go_error option" where
  "refusing_answer block =
     (if block = ''b1'' then missing ''Reservation not found''
      else missing ''401 Unauthorized'')"

text \<open>Two backends that hold no reservation and word the miss differently.\<close>

definition plain_miss :: "string \<Rightarrow> string Reservation option \<times> go_error option" where
  "plain_miss block = missing ''Reservation not found''"

definition wordy_miss :: "string \<Rightarrow> string Reservation option \<times> go_error option" where
  "wordy_miss block = missing (''Reservation not found in block '' @ block)"

text \<open>A backend whose answer for \<^verbatim>\<open>b1\<close> has the given error text, and that misses elsewhere.\<close>

definition worded_answer ::
  "string \<Rightarrow> string \<Rightarrow> string Reservation option \<times> go_error option" where
  "worded_answer wording block =
     (if block = ''b1'' then missing wording else missing ''Reservation not found'')"

section \<open>Strings and diagnostics\<close>

lemma Contains_sublist: "Contains s sub \<longleftrightarrow> sublist sub s"
  by (induction s) (auto simp: sublist_Cons_right)

lemma set_Append: "set (Append diags ins) = set diags \<union> set ins"
  by (induction ins arbitrary: diags) auto

lemma HasError_iff: "HasError ds \<longleftrightarrow> (\<exists>s t. ErrorDiagnostic s t \<in> set ds)"
  by (induction ds rule: HasError.induct) auto

lemma AddError_mem: "ErrorDiagnostic s t \<in> set (AddError ds s t)"
  by (simp add: AddError_def set_Append)

lemma HasError_AddError: "HasError (AddError ds s t)"
  using AddError_mem HasError_iff by blast

section \<open>The loop over the blocks\<close>

text \<open>
  Blocks that answer with a not-found error are skipped, each after one call; the last
  such error is the one kept in \<^verbatim>\<open>lastErr\<close>.
\<close>

lemma search_skip:
  assumes "\<forall>b \<in> set pre. not_found (reply ext d state b)"
  shows "search ext d state resp lastErr (pre @ rest) =
           (case search ext d state resp
                   (if pre = [] then lastErr else snd (reply ext d state (last pre))) rest of
              (e, calls) \<Rightarrow> (e, map (call_of state) pre @ calls))"
  using assms
proof (induction pre arbitrary: lastErr)
  case Nil
  then show ?case by (simp split: prod.splits)
next
  case (Cons b pre)
  from Cons.prems obtain r err where b: "reply ext d state b = (r, Some err)"
    and c: "Contains (Error err) ''Reservation not found''"
    by (cases "reply ext d state b"; cases "snd (reply ext d state b)") auto
  have "\<forall>b \<in> set pre. not_found (reply ext d state b)" using Cons.prems by simp
  note IH = Cons.IH[OF this, of "Some err"]
  show ?case
    using b c IH by (auto simp: reply_def call_of_def Let_def split: prod.splits)
qed


lemma search_exhausted:
  assumes "\<forall>b \<in> set blocks. not_found (reply ext d state b)"
  shows "search ext d state resp lastErr blocks =
           (Exited None (if blocks = [] then lastErr else snd (reply ext d state (last blocks))),
            map (call_of state) blocks)"
  using search_skip[OF assms, of resp lastErr "[]"] by simp

section \<open>The ways through Read\<close>

lemma Read_searching:
  assumes "Get (Config req) = (cdiags, state)"
    and "ElementsAs ext (Blocks state) = (diags, blocks)"
    and "\<not> HasError diags" and "blocks \<noteq> []"
  shows "Read ext d req resp0 =
     (case search ext d state (resp0\<lparr>Diagnostics := Append (Diagnostics resp0) cdiags\<rparr>)
             None blocks of
        (Returned resp', calls) \<Rightarrow> (resp', calls)
      | (Exited None lastErr, calls) \<Rightarrow>
          (resp0\<lparr>Diagnostics :=
             AddError (Append (Diagnostics resp0) cdiags) ''Reservation Not Found''
               (''Reservation with id '' @ [CHR 0x27] @ ValueString (Id_attr state)
                  @ [CHR 0x27] @ '' was not found in provided blocks.'')\<rparr>, calls)
      | (Exited (Some reservation) lastErr, calls) \<Rightarrow>
          (resp0\<lparr>Diagnostics := Append (Append (Diagnostics resp0) cdiags)
                     (fst (State_Set ext (State resp0) (assign_state ext reservation state))),
                 State := snd (State_Set ext (State resp0) (assign_state ext reservation state))\<rparr>,
           calls))"
  using assms
  by (simp add: Read_def Let_def split: prod.splits loop_end.splits option.splits)



lemma search_head:
  "\<exists>calls. snd (search ext d state resp lastErr (b # rest)) = call_of state b # calls"
  by (auto simp: call_of_def Let_def split: prod.splits option.splits)

lemma Read_found:
  assumes "Get (Config req) = (cdiags, state)"
    and "ElementsAs ext (Blocks state) = (diags, blocks)" and "\<not> HasError diags"
    and "blocks = pre @ b # rest"
    and "\<forall>x \<in> set pre. not_found (reply ext d state x)"
    and "reply ext d state b = (Some reservation, None)"
  shows "Read ext d req resp0 =
     (resp0\<lparr>Diagnostics := Append (Append (Diagnostics resp0) cdiags)
                (fst (State_Set ext (State resp0) (assign_state ext reservation state))),
            State := snd (State_Set ext (State resp0) (assign_state ext reservation state))\<rparr>,
      map (call_of state) (pre @ [b]))"
proof -
  have ne: "blocks \<noteq> []" using assms(4) by simp
  have "search ext d state resp L (b # rest) = (Exited (Some reservation) L, [call_of state b])"
    for L resp
    using assms(6) by (simp add: reply_def call_of_def)
  then have "search ext d state resp None blocks =
      (Exited (Some reservation) (if pre = [] then None else snd (reply ext d state (last pre))),
       map (call_of state) (pre @ [b]))" for resp
    unfolding assms(4) by (simp add: search_skip[OF assms(5)])
  then show ?thesis
    by (simp add: Read_searching[OF assms(1,2,3) ne])
qed

lemma Read_fatal:
  assumes "Get (Config req) = (cdiags, state)"
    and "ElementsAs ext (Blocks state) = (diags, blocks)" and "\<not> HasError diags"
    and "blocks = pre @ b # rest"
    and "\<forall>x \<in> set pre. not_found (reply ext d state x)"
    and "reply ext d state b = (r, Some err)"
    and "\<not> Contains (Error err) ''Reservation not found''"
  shows "Read ext d req resp0 =
     (resp0\<lparr>Diagnostics :=
         AddError (Append (Diagnostics resp0) cdiags) ''Unable to Read AzureIpam Reservation''
           (''space='' @ ValueString (Space state) @ '' block='' @ b
              @ '' error='' @ Error err)\<rparr>,
      map (call_of state) (pre @ [b]))"
proof -
  have ne: "blocks \<noteq> []" using assms(4) by simp
  have "search ext d state resp L (b # rest) =
      (Returned (resp\<lparr>Diagnostics :=
           AddError (Diagnostics resp) ''Unable to Read AzureIpam Reservation''
             (''space='' @ ValueString (Space state) @ '' block='' @ b
                @ '' error='' @ Error err)\<rparr>), [call_of state b])"
    for L resp
    using assms(6,7) by (simp add: reply_def call_of_def)
  then have "search ext d state resp None blocks =
      (Returned (resp\<lparr>Diagnostics :=
           AddError (Diagnostics resp) ''Unable to Read AzureIpam Reservation''
             (''space='' @ ValueString (Space state) @ '' block='' @ b
                @ '' error='' @ Error err)\<rparr>),
       map (call_of state) (pre @ [b]))" for resp
    unfolding assms(4) by (simp add: search_skip[OF assms(5)])
  then show ?thesis
    by (simp add: Read_searching[OF assms(1,2,3) ne])
qed

lemma Read_empty:
  assumes "Get (Config req) = (cdiags, state)"
    and "ElementsAs ext (Blocks state) = (diags, [])" and "\<not> HasError diags"
  shows "Read ext d req resp0 =
     (resp0\<lparr>Diagnostics :=
         AddError (Append (Diagnostics resp0) cdiags) ''Invalid Configuration''
           ''At least one block must be specified in 'blocks'.''\<rparr>, [])"
  using assms by (simp add: Read_def)


lemma Read_exhausted:
  assumes "Get (Config req) = (cdiags, state)"
    and "ElementsAs ext (Blocks state) = (diags, blocks)" and "\<not> HasError diags"
    and "blocks \<noteq> []"
    and "\<forall>x \<in> set blocks. not_found (reply ext d state x)"
  shows "Read ext d req resp0 =
     (resp0\<lparr>Diagnostics :=
         AddError (Append (Diagnostics resp0) cdiags) ''Reservation Not Found''
           (''Reservation with id '' @ [CHR 0x27] @ ValueString (Id_attr state)
              @ [CHR 0x27] @ '' was not found in provided blocks.'')\<rparr>,
      map (call_of state) blocks)"
  by (simp add: Read_searching[OF assms(1,2,3,4)] search_exhausted[OF assms(5)])

lemma Read_calls:
  assumes "Get (Config req) = (cdiags, state)"
    and "ElementsAs ext (Blocks state) = (diags, blocks)"
    and "\<not> HasError diags" and "blocks \<noteq> []"
  shows "snd (Read ext d req resp0) =
     snd (search ext d state (resp0\<lparr>Diagnostics := Append (Diagnostics resp0) cdiags\<rparr>)
            None blocks)"
  by (simp add: Read_searching[OF assms] split: prod.splits loop_end.splits option.splits)



section \<open>Facts about the sample inputs and the state mapping\<close>

lemma sample_Get:
  "Get (Config (sample_request bs i)) = ([], sample_config bs i)"
  by (simp add: sample_request_def)


lemma sample_ElementsAs:
  "ElementsAs (sample_externals a) (Blocks (sample_config bs i)) = ([], bs)"
  by (simp add: sample_externals_def sample_config_def comp_def)

lemma sample_reply: "reply (sample_externals a) d st b = a b"
  by (simp add: reply_def sample_externals_def)

lemma sample_State_Set: "State_Set (sample_externals a) st m = ([], Some m)"
  by (simp add: sample_externals_def)

lemma sample_call: "call_of (sample_config bs i) b = (''s1'', b, i)"
  by (simp add: call_of_def sample_config_def)

lemma assign_state_computed:
  "Id_attr (assign_state ext r st) = StringValue (res_id r)"
  "Cidr (assign_state ext r st) = StringValue (cidr r)"
  "Description (assign_state ext r st) = StringValue (description r)"
  "CreatedOn (assign_state ext r st) = parseTimestamp ext (createdOn r)"
  "CreatedBy (assign_state ext r st) = StringValue (createdBy r)"
  "SettledOn (assign_state ext r st) = parseTimestamp ext (settledOn r)"
  "SettledBy (assign_state ext r st) = StringValue (settledBy r)"
  "Status (assign_state ext r st) = StringValue (status r)"
  "Tags (assign_state ext r st) = fst (MapValueFrom (tags r))"
  by (simp_all add: assign_state_def flattenReservation_def)

lemma MapValueFrom_cases:
  "fst (MapValueFrom None) = MapNull"
  "fst (MapValueFrom (Some entries)) = MapValue (map_option StringValue \<circ> entries)"
  by (auto simp: MapValueFrom_def fun_eq_iff split: option.splits)

lemma assign_state_inputs:
  "Space (assign_state ext r st) = Space st"
  "Blocks (assign_state ext r st) = Blocks st"
  by (simp_all add: assign_state_def Let_def)

section \<open>First match wins\<close>

text \<open>
  Claim C1. Let the blocks of the request be \<open>pre @ b # rest\<close>, where every block of \<open>pre\<close>
  answers with a not-found error and \<open>b\<close> answers with a reservation: \<open>b\<close> is the first
  matching block, at position \<open>k = length pre + 1\<close> counted from one. Then \<^verbatim>\<open>Read\<close> calls
  the backend exactly \<open>k\<close> times, for the blocks of \<open>pre\<close> and then for \<open>b\<close>, in list order,
  and for no block of \<open>rest\<close>; what it stores is the state mapped from the reservation of
  \<open>b\<close>, and it adds no diagnostic of its own.
\<close>

theorem C1_first_match_wins:
  assumes "Get (Config req) = (cdiags, state)"
    and "ElementsAs ext (Blocks state) = (diags, blocks)" and "\<not> HasError diags"
    and "blocks = pre @ b # rest"
    and "\<forall>x \<in> set pre. not_found (reply ext d state x)"
    and "reply ext d state b = (Some reservation, None)"
  shows "snd (Read ext d req resp0) = map (call_of state) (pre @ [b])
       \<and> length (snd (Read ext d req resp0)) = Suc (length pre)
       \<and> State (fst (Read ext d req resp0)) =
           snd (State_Set ext (State resp0) (assign_state ext reservation state))
       \<and> Diagnostics (fst (Read ext d req resp0)) =
           Append (Append (Diagnostics resp0) cdiags)
             (fst (State_Set ext (State resp0) (assign_state ext reservation state)))"
  by (simp add: Read_found[OF assms])

text \<open>
  The scenario of the specification: blocks \<^verbatim>\<open>b1\<close>, \<^verbatim>\<open>b2\<close>, the id \<^verbatim>\<open>X\<close> missing in \<^verbatim>\<open>b1\<close>
  and found in \<^verbatim>\<open>b2\<close> with cidr \<^verbatim>\<open>10.1.2.0/28\<close>: two calls, \<^verbatim>\<open>b1\<close> then \<^verbatim>\<open>b2\<close>, and the
  cidr of the stored state is \<^verbatim>\<open>10.1.2.0/28\<close>.
\<close>

theorem C1_scenario:
  "snd (Read (sample_externals scenario_answer) sample_source
          (sample_request [''b1'', ''b2''] ''X'') sample_response)
     = [(''s1'', ''b1'', ''X''), (''s1'', ''b2'', ''X'')]
   \<and> State (fst (Read (sample_externals scenario_answer) sample_source
          (sample_request [''b1'', ''b2''] ''X'') sample_response))
     = Some (assign_state (sample_externals scenario_answer) scenario_reservation
               (sample_config [''b1'', ''b2''] ''X''))
   \<and> Cidr (assign_state (sample_externals scenario_answer) scenario_reservation
               (sample_config [''b1'', ''b2''] ''X'')) = StringValue ''10.1.2.0/28''"
proof -
  let ?ext = "sample_externals scenario_answer"
  let ?cfg = "sample_config [''b1'', ''b2''] ''X''"
  have split: "[''b1'', ''b2''] = [''b1''] @ ''b2'' # []" by simp
  have before: "\<forall>x \<in> set [''b1'']. not_found (reply ?ext sample_source ?cfg x)"
    by (simp add: sample_reply scenario_answer_def missing_def)
  have hit: "reply ?ext sample_source ?cfg ''b2'' = (Some scenario_reservation, None)"
    by (simp add: sample_reply scenario_answer_def)
  have ok: "\<not> HasError []" by simp
  have cidr: "cidr scenario_reservation = ''10.1.2.0/28''"
    by (simp add: scenario_reservation_def)
  show ?thesis
    using C1_first_match_wins[OF sample_Get sample_ElementsAs ok split before hit,
        of sample_response]
    by (simp add: sample_call sample_State_Set assign_state_computed cidr)
qed

section \<open>Fail fast\<close>

text \<open>
  Claim C2. Let the blocks be \<open>pre @ b # rest\<close>, where every block of \<open>pre\<close> answers with a
  not-found error and \<open>b\<close> answers with an error whose text does not contain
  \<^verbatim>\<open>Reservation not found\<close>. Then \<^verbatim>\<open>Read\<close> adds the read failure that names the space,
  the block \<open>b\<close> and the text of the error, stores no state, and has called the backend
  for \<open>pre\<close> and \<open>b\<close> only: no block of \<open>rest\<close> is tried.
\<close>

theorem C2_fail_fast:
  assumes "Get (Config req) = (cdiags, state)"
    and "ElementsAs ext (Blocks state) = (diags, blocks)" and "\<not> HasError diags"
    and "blocks = pre @ b # rest"
    and "\<forall>x \<in> set pre. not_found (reply ext d state x)"
    and "reply ext d state b = (r, Some err)"
    and "\<not> Contains (Error err) ''Reservation not found''"
  shows "Diagnostics (fst (Read ext d req resp0)) =
           AddError (Append (Diagnostics resp0) cdiags) ''Unable to Read AzureIpam Reservation''
             (''space='' @ ValueString (Space state) @ '' block='' @ b
                @ '' error='' @ Error err)
       \<and> ErrorDiagnostic ''Unable to Read AzureIpam Reservation''
             (''space='' @ ValueString (Space state) @ '' block='' @ b
                @ '' error='' @ Error err) \<in> set (Diagnostics (fst (Read ext d req resp0)))
       \<and> State (fst (Read ext d req resp0)) = State resp0
       \<and> snd (Read ext d req resp0) = map (call_of state) (pre @ [b])"
  by (simp add: Read_fatal[OF assms] AddError_mem)

text \<open>
  With blocks \<^verbatim>\<open>b1\<close>, \<^verbatim>\<open>b2\<close>, \<^verbatim>\<open>b3\<close>, a miss in \<^verbatim>\<open>b1\<close> and \<^verbatim>\<open>401 Unauthorized\<close> for
  \<^verbatim>\<open>b2\<close>, the block \<^verbatim>\<open>b3\<close> is never tried.
\<close>

theorem C2_refused:
  "Diagnostics (fst (Read (sample_externals refusing_answer) sample_source
          (sample_request [''b1'', ''b2'', ''b3''] ''X'') sample_response))
     = [ErrorDiagnostic ''Unable to Read AzureIpam Reservation''
          ''space=s1 block=b2 error=401 Unauthorized'']
   \<and> State (fst (Read (sample_externals refusing_answer) sample_source
          (sample_request [''b1'', ''b2'', ''b3''] ''X'') sample_response)) = None
   \<and> snd (Read (sample_externals refusing_answer) sample_source
          (sample_request [''b1'', ''b2'', ''b3''] ''X'') sample_response)
     = [(''s1'', ''b1'', ''X''), (''s1'', ''b2'', ''X'')]"
proof -
  let ?ext = "sample_externals refusing_answer"
  let ?cfg = "sample_config [''b1'', ''b2'', ''b3''] ''X''"
  let ?err = "GoError ''*errors.errorString'' ''401 Unauthorized''"
  have split: "[''b1'', ''b2'', ''b3''] = [''b1''] @ ''b2'' # [''b3'']" by simp
  have before: "\<forall>x \<in> set [''b1'']. not_found (reply ?ext sample_source ?cfg x)"
    by (simp add: sample_reply refusing_answer_def missing_def)
  have refusal: "reply ?ext sample_source ?cfg ''b2'' = (None, Some ?err)"
    by (simp add: sample_reply refusing_answer_def missing_def)
  have other: "\<not> Contains (Error ?err) ''Reservation not found''" by simp
  have ok: "\<not> HasError []" by simp
  have space: "ValueString (Space ?cfg) = ''s1''" by (simp add: sample_config_def)
  show ?thesis
    using C2_fail_fast[OF sample_Get sample_ElementsAs ok split before refusal other,
        of sample_response]
    by (simp add: sample_call space sample_response_def AddError_def)
qed

section \<open>No blocks\<close>

text \<open>
  Claim C3. When the list of blocks of the request converts to the empty list, \<^verbatim>\<open>Read\<close>
  ends with the configuration error \<^verbatim>\<open>At least one block must be specified in 'blocks'.\<close>,
  stores no state, and makes no call to the backend.
\<close>

theorem C3_empty_blocks:
  assumes "Get (Config req) = (cdiags, state)"
    and "ElementsAs ext (Blocks state) = (diags, [])" and "\<not> HasError diags"
  shows "Diagnostics (fst (Read ext d req resp0)) =
           AddError (Append (Diagnostics resp0) cdiags) ''Invalid Configuration''
             ''At least one block must be specified in 'blocks'.''
       \<and> ErrorDiagnostic ''Invalid Configuration''
             ''At least one block must be specified in 'blocks'.''
           \<in> set (Diagnostics (fst (Read ext d req resp0)))
       \<and> HasError (Diagnostics (fst (Read ext d req resp0)))
       \<and> State (fst (Read ext d req resp0)) = State resp0
       \<and> snd (Read ext d req resp0) = []"
  by (simp add: Read_empty[OF assms] AddError_mem HasError_AddError)

text \<open>A request with no blocks.\<close>

theorem C3_no_blocks:
  "Diagnostics (fst (Read (sample_externals scenario_answer) sample_source
          (sample_request [] ''X'') sample_response))
     = [ErrorDiagnostic ''Invalid Configuration''
          ''At least one block must be specified in 'blocks'.'']
   \<and> snd (Read (sample_externals scenario_answer) sample_source
          (sample_request [] ''X'') sample_response) = []"
proof -
  have ok: "\<not> HasError []" by simp
  show ?thesis
    using C3_empty_blocks[OF sample_Get[of "[]" "''X''"]
        sample_ElementsAs[of scenario_answer "[]" "''X''"] ok,
        where d = sample_source and ?resp0.0 = sample_response]
    by (simp add: sample_response_def AddError_def)
qed

section \<open>Not found in any block\<close>

text \<open>
  Claim C4. When the list of blocks is not empty and every block answers with a not-found
  error, \<^verbatim>\<open>Read\<close> adds the one error \<^verbatim>\<open>Reservation Not Found\<close>, whose detail is built from
  the id alone (it contains the id and names no block), stores no state, and has called
  the backend once for each block, in the order of the list.
\<close>

theorem C4_aggregate_not_found:
  assumes "Get (Config req) = (cdiags, state)"
    and "ElementsAs ext (Blocks state) = (diags, blocks)" and "\<not> HasError diags"
    and "blocks \<noteq> []"
    and "\<forall>x \<in> set blocks. not_found (reply ext d state x)"
  shows "Diagnostics (fst (Read ext d req resp0)) =
           AddError (Append (Diagnostics resp0) cdiags) ''Reservation Not Found''
             (''Reservation with id '' @ [CHR 0x27] @ ValueString (Id_attr state)
                @ [CHR 0x27] @ '' was not found in provided blocks.'')
       \<and> ErrorDiagnostic ''Reservation Not Found''
             (''Reservation with id '' @ [CHR 0x27] @ ValueString (Id_attr state)
                @ [CHR 0x27] @ '' was not found in provided blocks.'')
           \<in> set (Diagnostics (fst (Read ext d req resp0)))
       \<and> sublist (ValueString (Id_attr state))
             (''Reservation with id '' @ [CHR 0x27] @ ValueString (Id_attr state)
                @ [CHR 0x27] @ '' was not found in provided blocks.'')
       \<and> State (fst (Read ext d req resp0)) = State resp0
       \<and> snd (Read ext d req resp0) = map (call_of state) blocks
       \<and> length (snd (Read ext d req resp0)) = length blocks"
proof -
  have "sublist (ValueString (Id_attr state))
          ((''Reservation with id '' @ [CHR 0x27]) @ ValueString (Id_attr state)
             @ ([CHR 0x27] @ '' was not found in provided blocks.''))"
    unfolding sublist_def by blast
  then show ?thesis
    by (simp add: Read_exhausted[OF assms] AddError_mem)
qed

text \<open>Two blocks, both without the reservation.\<close>

theorem C4_nowhere:
  "Diagnostics (fst (Read (sample_externals wordy_miss) sample_source
          (sample_request [''b1'', ''b2''] ''X'') sample_response))
     = [ErrorDiagnostic ''Reservation Not Found''
          (''Reservation with id '' @ [CHR 0x27] @ ''X'' @ [CHR 0x27]
             @ '' was not found in provided blocks.'')]
   \<and> snd (Read (sample_externals wordy_miss) sample_source
          (sample_request [''b1'', ''b2''] ''X'') sample_response)
     = [(''s1'', ''b1'', ''X''), (''s1'', ''b2'', ''X'')]"
proof -
  let ?ext = "sample_externals wordy_miss"
  let ?cfg = "sample_config [''b1'', ''b2''] ''X''"
  have ne: "[''b1'', ''b2''] \<noteq> []" by simp
  have all: "\<forall>x \<in> set [''b1'', ''b2'']. not_found (reply ?ext sample_source ?cfg x)"
    by (simp add: sample_reply wordy_miss_def missing_def)
  have ok: "\<not> HasError []" by simp
  have ident: "ValueString (Id_attr ?cfg) = ''X''" by (simp add: sample_config_def)
  show ?thesis
    using C4_aggregate_not_found[OF sample_Get sample_ElementsAs ok ne all, of sample_response]
    by (simp add: sample_call ident sample_response_def AddError_def)
qed

section \<open>What lets the loop go on\<close>

text \<open>
  Claim C5. Let a block \<open>b\<close> be reached (every block before it has answered with a
  not-found error) and let the backend answer for \<open>b\<close> with an error of any dynamic type
  \<open>ty\<close> and with text \<open>msg\<close>. When blocks remain after \<open>b\<close>, \<^verbatim>\<open>Read\<close> goes on to the next of
  them if and only if \<^verbatim>\<open>Reservation not found\<close> occurs in \<open>msg\<close> as a substring; the type
  of the error plays no part. When the substring is absent the error is fatal: \<open>b\<close> is
  the last block called and the read failure is added. When the substring is present
  and \<open>b\<close> is the last block, the lookup ends as not found.
\<close>

theorem C5_continue_iff_substring:
  assumes "Get (Config req) = (cdiags, state)"
    and "ElementsAs ext (Blocks state) = (diags, blocks)" and "\<not> HasError diags"
    and "blocks = pre @ b # rest"
    and "\<forall>x \<in> set pre. not_found (reply ext d state x)"
    and "reply ext d state b = (r, Some (GoError ty msg))"
  shows "(rest \<noteq> [] \<longrightarrow>
            (Suc (length pre) < length (snd (Read ext d req resp0))
               \<longleftrightarrow> sublist ''Reservation not found'' msg))
       \<and> (\<forall>following rest'. rest = following # rest'
              \<and> sublist ''Reservation not found'' msg \<longrightarrow>
            take (Suc (Suc (length pre))) (snd (Read ext d req resp0))
              = map (call_of state) (pre @ [b, following]))
       \<and> (\<not> sublist ''Reservation not found'' msg \<longrightarrow>
            snd (Read ext d req resp0) = map (call_of state) (pre @ [b])
          \<and> Diagnostics (fst (Read ext d req resp0)) =
              AddError (Append (Diagnostics resp0) cdiags)
                ''Unable to Read AzureIpam Reservation''
                (''space='' @ ValueString (Space state) @ '' block='' @ b
                   @ '' error='' @ msg))
       \<and> (sublist ''Reservation not found'' msg \<and> rest = [] \<longrightarrow>
            snd (Read ext d req resp0) = map (call_of state) blocks
          \<and> Diagnostics (fst (Read ext d req resp0)) =
              AddError (Append (Diagnostics resp0) cdiags) ''Reservation Not Found''
                (''Reservation with id '' @ [CHR 0x27] @ ValueString (Id_attr state)
                   @ [CHR 0x27] @ '' was not found in provided blocks.''))"
proof (cases "sublist ''Reservation not found'' msg")
  case True
  let ?resp = "resp0\<lparr>Diagnostics := Append (Diagnostics resp0) cdiags\<rparr>"
  have ne: "blocks \<noteq> []" using assms(4) by simp
  have nf: "\<forall>x \<in> set (pre @ [b]). not_found (reply ext d state x)"
    using assms(5,6) True by (simp add: Contains_sublist)
  have go_on: "take (Suc (Suc (length pre))) (snd (Read ext d req resp0))
                 = map (call_of state) (pre @ [b, following])
               \<and> Suc (length pre) < length (snd (Read ext d req resp0))"
    if rest: "rest = following # rest'" for following rest'
  proof -
    have blocks: "blocks = (pre @ [b]) @ following # rest'" using assms(4) rest by simp
    obtain calls where calls:
      "snd (search ext d state ?resp (snd (reply ext d state (last (pre @ [b]))))
              (following # rest')) = call_of state following # calls"
      using search_head by blast
    have "snd (Read ext d req resp0)
        = map (call_of state) (pre @ [b]) @ call_of state following # calls"
      unfolding Read_calls[OF assms(1,2,3) ne]
      unfolding blocks search_skip[OF nf]
      using calls by (simp add: case_prod_beta del: search.simps)
    then show ?thesis by simp
  qed
  show ?thesis
  proof (cases rest)
    case Nil
    then have "\<forall>x \<in> set blocks. not_found (reply ext d state x)"
      using nf assms(4) by simp
    from Read_exhausted[OF assms(1,2,3) ne this, of resp0]
    show ?thesis using True Nil by simp
  next
    case (Cons following rest')
    from go_on[OF this] show ?thesis using True Cons by simp
  qed
next
  case False
  then have "\<not> Contains (Error (GoError ty msg)) ''Reservation not found''"
    by (simp add: Contains_sublist)
  from Read_fatal[OF assms(1,2,3,4,5,6) this, of resp0]
  show ?thesis using False by simp
qed

text \<open>
  The match is on the bytes of the text: \<^verbatim>\<open>reservation not found\<close> in lower case stops the
  lookup after one call, \<^verbatim>\<open>404: Reservation not found.\<close> lets it go on to \<^verbatim>\<open>b2\<close>.
\<close>

theorem C5_wording_decides:
  "snd (Read (sample_externals (worded_answer ''reservation not found'')) sample_source
          (sample_request [''b1'', ''b2''] ''X'') sample_response)
     = [(''s1'', ''b1'', ''X'')]
   \<and> take 2 (snd (Read (sample_externals (worded_answer ''404: Reservation not found.''))
          sample_source (sample_request [''b1'', ''b2''] ''X'') sample_response))
     = [(''s1'', ''b1'', ''X''), (''s1'', ''b2'', ''X'')]"
proof -
  let ?cfg = "sample_config [''b1'', ''b2''] ''X''"
  let ?ty = "''*errors.errorString''"
  have split: "[''b1'', ''b2''] = [] @ ''b1'' # [''b2'']" by simp
  have before: "\<forall>x \<in> set []. not_found (reply ext sample_source ?cfg x)" for ext
    by simp
  have answer: "reply (sample_externals (worded_answer w)) sample_source ?cfg ''b1''
      = (None, Some (GoError ?ty w))" for w
    by (simp add: sample_reply worded_answer_def missing_def)
  have ok: "\<not> HasError []" by simp
  have lower: "\<not> sublist ''Reservation not found'' ''reservation not found''"
    by (simp add: Contains_sublist[symmetric])
  have upper: "sublist ''Reservation not found'' ''404: Reservation not found.''"
    by (simp add: Contains_sublist[symmetric])
  show ?thesis
    using C5_continue_iff_substring[OF sample_Get sample_ElementsAs ok split before answer,
        of "''reservation not found''" sample_response]
      C5_continue_iff_substring[OF sample_Get sample_ElementsAs ok split before answer,
        of "''404: Reservation not found.''" sample_response]
    by (simp add: lower upper sample_call numeral_2_eq_2)
qed

section \<open>The projection of the reservation\<close>

text \<open>
  Claim C6. When a reservation is found, the state that \<^verbatim>\<open>Read\<close> hands to the store takes
  id, cidr, description, createdBy, settledBy and status from the reservation as they
  are, the tags entry by entry under the same keys (a reservation without a tags map
  gives the null map), and createdOn and settledOn through the timestamp parser and
  nothing else.
\<close>

theorem C6_projection:
  assumes "Get (Config req) = (cdiags, state)"
    and "ElementsAs ext (Blocks state) = (diags, blocks)" and "\<not> HasError diags"
    and "blocks = pre @ b # rest"
    and "\<forall>x \<in> set pre. not_found (reply ext d state x)"
    and "reply ext d state b = (Some reservation, None)"
    and "recorded = assign_state ext reservation state"
  shows "State (fst (Read ext d req resp0)) = snd (State_Set ext (State resp0) recorded)
       \<and> Id_attr recorded = StringValue (res_id reservation)
       \<and> Cidr recorded = StringValue (cidr reservation)
       \<and> Description recorded = StringValue (description reservation)
       \<and> CreatedBy recorded = StringValue (createdBy reservation)
       \<and> SettledBy recorded = StringValue (settledBy reservation)
       \<and> Status recorded = StringValue (status reservation)
       \<and> Tags recorded =
           (case tags reservation of
              None \<Rightarrow> MapNull
            | Some entries \<Rightarrow> MapValue (map_option StringValue \<circ> entries))
       \<and> CreatedOn recorded = parseTimestamp ext (createdOn reservation)
       \<and> SettledOn recorded = parseTimestamp ext (settledOn reservation)"
  unfolding assms(7)
  by (simp add: Read_found[OF assms(1-6)] assign_state_computed MapValueFrom_cases
      split: option.splits)

text \<open>
  The round trip of the specification: id \<^verbatim>\<open>r1\<close>, cidr \<^verbatim>\<open>10.0.0.0/24\<close>, status \<^verbatim>\<open>wait\<close>
  and the tag \<^verbatim>\<open>X-IPAM-RES-ID\<close> with value \<^verbatim>\<open>r1\<close> arrive in the state unchanged; a
  reservation without tags arrives with the null map.
\<close>

theorem C6_roundtrip:
  "(\<exists>recorded.
      State (fst (Read (sample_externals roundtrip_answer) sample_source
           (sample_request [''b1''] ''r1'') sample_response)) = Some recorded
    \<and> Id_attr recorded = StringValue ''r1''
    \<and> Cidr recorded = StringValue ''10.0.0.0/24''
    \<and> Status recorded = StringValue ''wait''
    \<and> Tags recorded = MapValue [''X-IPAM-RES-ID'' \<mapsto> StringValue ''r1''])
   \<and> (\<exists>recorded.
      State (fst (Read (sample_externals untagged_answer) sample_source
           (sample_request [''b1''] ''r2'') sample_response)) = Some recorded
    \<and> Id_attr recorded = StringValue ''r2''
    \<and> Tags recorded = MapNull)"
proof -
  have split: "[''b1''] = [] @ ''b1'' # []" by simp
  have before: "\<forall>x \<in> set []. not_found (reply ext sample_source cfg x)" for ext cfg
    by simp
  have hit: "reply (sample_externals roundtrip_answer) sample_source
      (sample_config [''b1''] ''r1'') ''b1'' = (Some roundtrip_reservation, None)"
    by (simp add: sample_reply roundtrip_answer_def)
  have bare: "reply (sample_externals untagged_answer) sample_source
      (sample_config [''b1''] ''r2'') ''b1'' = (Some untagged_reservation, None)"
    by (simp add: sample_reply untagged_answer_def)
  have ok: "\<not> HasError []" by simp
  have tags: "map_option StringValue \<circ> [''X-IPAM-RES-ID'' \<mapsto> ''r1'']
      = [''X-IPAM-RES-ID'' \<mapsto> StringValue ''r1'']"
    by (auto simp: fun_eq_iff)
  have tagged: "\<exists>recorded.
      State (fst (Read (sample_externals roundtrip_answer) sample_source
           (sample_request [''b1''] ''r1'') sample_response)) = Some recorded
    \<and> Id_attr recorded = StringValue ''r1''
    \<and> Cidr recorded = StringValue ''10.0.0.0/24''
    \<and> Status recorded = StringValue ''wait''
    \<and> Tags recorded = MapValue [''X-IPAM-RES-ID'' \<mapsto> StringValue ''r1'']"
    using C6_projection[OF sample_Get sample_ElementsAs ok split before hit refl,
        of sample_response]
    by (simp add: sample_State_Set roundtrip_reservation_def tags)
  have untagged: "\<exists>recorded.
      State (fst (Read (sample_externals untagged_answer) sample_source
           (sample_request [''b1''] ''r2'') sample_response)) = Some recorded
    \<and> Id_attr recorded = StringValue ''r2''
    \<and> Tags recorded = MapNull"
    using C6_projection[OF sample_Get sample_ElementsAs ok split before bare refl,
        of sample_response]
    by (simp add: sample_State_Set untagged_reservation_def)
  show ?thesis using tagged untagged by blast
qed

section \<open>The last not-found error\<close>

text \<open>
  Claim C7 says that the not-found outcome that is returned carries the last not-found
  error seen. It does not: two backends that miss in both blocks with differently worded
  errors leave exactly the same response and the same calls, so the outcome of \<^verbatim>\<open>Read\<close>
  does not tell the last error.
\<close>

theorem C7_last_error_not_reported:
  "Read (sample_externals plain_miss) sample_source
       (sample_request [''b1'', ''b2''] ''X'') sample_response
     = Read (sample_externals wordy_miss) sample_source
         (sample_request [''b1'', ''b2''] ''X'') sample_response
   \<and> Diagnostics (fst (Read (sample_externals wordy_miss) sample_source
         (sample_request [''b1'', ''b2''] ''X'') sample_response))
     = [ErrorDiagnostic ''Reservation Not Found''
          (''Reservation with id '' @ [CHR 0x27] @ ''X'' @ [CHR 0x27]
             @ '' was not found in provided blocks.'')]
   \<and> snd (reply (sample_externals plain_miss) sample_source
            (sample_config [''b1'', ''b2''] ''X'') ''b2'')
     = Some (GoError ''*errors.errorString'' ''Reservation not found'')
   \<and> snd (reply (sample_externals wordy_miss) sample_source
            (sample_config [''b1'', ''b2''] ''X'') ''b2'')
     = Some (GoError ''*errors.errorString'' ''Reservation not found in block b2'')"
proof -
  let ?cfg = "sample_config [''b1'', ''b2''] ''X''"
  have ne: "[''b1'', ''b2''] \<noteq> []" by simp
  have ok: "\<not> HasError []" by simp
  have plain: "\<forall>x \<in> set [''b1'', ''b2''].
      not_found (reply (sample_externals plain_miss) sample_source ?cfg x)"
    by (simp add: sample_reply plain_miss_def missing_def)
  have wordy: "\<forall>x \<in> set [''b1'', ''b2''].
      not_found (reply (sample_externals wordy_miss) sample_source ?cfg x)"
    by (simp add: sample_reply wordy_miss_def missing_def)
  have ident: "ValueString (Id_attr ?cfg) = ''X''" by (simp add: sample_config_def)
  show ?thesis
    by (simp add: Read_exhausted[OF sample_Get sample_ElementsAs ok ne plain]
        Read_exhausted[OF sample_Get sample_ElementsAs ok ne wordy]
        sample_reply plain_miss_def wordy_miss_def missing_def ident
        sample_response_def AddError_def)
qed

text \<open>
  Claim C7, amended. For a request with at least one block in which every block answers
  with a not-found error, the loop ends with \<^verbatim>\<open>lastErr\<close> holding the not-found error of the
  final block attempted (the errors of earlier blocks have been overwritten), and \<^verbatim>\<open>Read\<close>
  then drops it: what \<^verbatim>\<open>Read\<close> returns is the response with the one
  \<^verbatim>\<open>Reservation Not Found\<close> error, whose detail is built from the id alone, and no
  per-block error is part of it.
\<close>

theorem C7_last_error_kept_then_dropped:
  assumes "Get (Config req) = (cdiags, state)"
    and "ElementsAs ext (Blocks state) = (diags, blocks)" and "\<not> HasError diags"
    and "blocks \<noteq> []"
    and "\<forall>x \<in> set blocks. not_found (reply ext d state x)"
  shows "fst (search ext d state (resp0\<lparr>Diagnostics := Append (Diagnostics resp0) cdiags\<rparr>)
                None blocks)
           = Exited None (snd (reply ext d state (last blocks)))
       \<and> not_found (reply ext d state (last blocks))
       \<and> Read ext d req resp0 =
           (resp0\<lparr>Diagnostics :=
               AddError (Append (Diagnostics resp0) cdiags) ''Reservation Not Found''
                 (''Reservation with id '' @ [CHR 0x27] @ ValueString (Id_attr state)
                    @ [CHR 0x27] @ '' was not found in provided blocks.'')\<rparr>,
            map (call_of state) blocks)"
  using assms(4,5)
  by (simp add: Read_exhausted[OF assms] search_exhausted[OF assms(5)])

text \<open>
  With two blocks that miss, \<^verbatim>\<open>lastErr\<close> ends as the error of \<^verbatim>\<open>b2\<close>, and the one
  diagnostic of the response names the id only.
\<close>

theorem C7_wordy_miss:
  "fst (search (sample_externals wordy_miss) sample_source (sample_config [''b1'', ''b2''] ''X'')
          (sample_response\<lparr>Diagnostics := Append (Diagnostics sample_response) []\<rparr>)
          None [''b1'', ''b2''])
     = Exited None (Some (GoError ''*errors.errorString'' ''Reservation not found in block b2''))
   \<and> Diagnostics (fst (Read (sample_externals wordy_miss) sample_source
         (sample_request [''b1'', ''b2''] ''X'') sample_response))
     = [ErrorDiagnostic ''Reservation Not Found''
          (''Reservation with id '' @ [CHR 0x27] @ ''X'' @ [CHR 0x27]
             @ '' was not found in provided blocks.'')]"
proof -
  let ?cfg = "sample_config [''b1'', ''b2''] ''X''"
  have ne: "[''b1'', ''b2''] \<noteq> []" by simp
  have ok: "\<not> HasError []" by simp
  have wordy: "\<forall>x \<in> set [''b1'', ''b2''].
      not_found (reply (sample_externals wordy_miss) sample_source ?cfg x)"
    by (simp add: sample_reply wordy_miss_def missing_def)
  have ident: "ValueString (Id_attr ?cfg) = ''X''" by (simp add: sample_config_def)
  show ?thesis
    using C7_last_error_kept_then_dropped[OF sample_Get sample_ElementsAs ok ne wordy,
        of sample_response]
    by (simp add: sample_reply wordy_miss_def missing_def ident sample_response_def
        AddError_def del: search.simps)
qed

section \<open>When the state is written\<close>




section \<open>The input attributes\<close>

text \<open>
  Claim C9. When a reservation is found, the state that \<^verbatim>\<open>Read\<close> hands to the store has the
  space and the blocks of the configuration, and each of the nine other attributes is
  overwritten from the reservation found: id, cidr, description, created_on, created_by,
  settled_on, settled_by and status with the fields that \<^verbatim>\<open>flattenReservation\<close> yields for
  that reservation, and tags with the map value of its tags. Nothing of what the
  configuration held in those nine attributes remains.
\<close>

theorem C9_inputs_kept:
  assumes "Get (Config req) = (cdiags, state)"
    and "ElementsAs ext (Blocks state) = (diags, blocks)" and "\<not> HasError diags"
    and "blocks = pre @ b # rest"
    and "\<forall>x \<in> set pre. not_found (reply ext d state x)"
    and "reply ext d state b = (Some reservation, None)"
    and "recorded = assign_state ext reservation state"
    and "model = flattenReservation (parseTimestamp ext) reservation"
  shows "State (fst (Read ext d req resp0)) = snd (State_Set ext (State resp0) recorded)
       \<and> Space recorded = Space state
       \<and> Blocks recorded = Blocks state
       \<and> Id_attr recorded = rm_Id model
       \<and> Cidr recorded = rm_Cidr model
       \<and> Description recorded = rm_Description model
       \<and> CreatedOn recorded = rm_CreatedOn model
       \<and> CreatedBy recorded = rm_CreatedBy model
       \<and> SettledOn recorded = rm_SettledOn model
       \<and> SettledBy recorded = rm_SettledBy model
       \<and> Status recorded = rm_Status model
       \<and> Tags recorded = fst (MapValueFrom (tags reservation))
       \<and> recorded =
           \<lparr> Space = Space state, Blocks = Blocks state, Id_attr = rm_Id model,
             Cidr = rm_Cidr model, Description = rm_Description model,
             CreatedOn = rm_CreatedOn model, CreatedBy = rm_CreatedBy model,
             SettledOn = rm_SettledOn model, SettledBy = rm_SettledBy model,
             Status = rm_Status model, Tags = fst (MapValueFrom (tags reservation)) \<rparr>
       \<and> (\<forall>other. recorded =
             (assign_state ext reservation other)\<lparr>Space := Space state, Blocks := Blocks state\<rparr>)"
  unfolding assms(7,8)
  by (simp add: Read_found[OF assms(1-6)] assign_state_inputs)
     (simp add: assign_state_def Let_def)

text \<open>
  In the scenario of the specification the space and the blocks are stored as given, and
  the nine other attributes, all null in the configuration, hold the values of the
  reservation found in \<^verbatim>\<open>b2\<close>.
\<close>

theorem C9_scenario_inputs:
  "\<exists>recorded.
     State (fst (Read (sample_externals scenario_answer) sample_source
          (sample_request [''b1'', ''b2''] ''X'') sample_response)) = Some recorded
   \<and> Space recorded = StringValue ''s1''
   \<and> Blocks recorded = ListValue [StringValue ''b1'', StringValue ''b2'']
   \<and> Cidr (sample_config [''b1'', ''b2''] ''X'') = StringNull
   \<and> Tags (sample_config [''b1'', ''b2''] ''X'') = MapNull
   \<and> Id_attr recorded = StringValue ''X''
   \<and> Cidr recorded = StringValue ''10.1.2.0/28''
   \<and> Description recorded = StringValue ''spoke''
   \<and> CreatedOn recorded = RFC3339 (StringValue ''2024-05-01T10:00:00Z'')
   \<and> CreatedBy recorded = StringValue ''ops@example.org''
   \<and> SettledOn recorded = RFC3339 (StringValue [])
   \<and> SettledBy recorded = StringValue []
   \<and> Status recorded = StringValue ''wait''
   \<and> Tags recorded = MapValue [''X-IPAM-RES-ID'' \<mapsto> StringValue ''X'']"
proof -
  let ?ext = "sample_externals scenario_answer"
  let ?cfg = "sample_config [''b1'', ''b2''] ''X''"
  let ?model = "flattenReservation (parseTimestamp ?ext) scenario_reservation"
  have split: "[''b1'', ''b2''] = [''b1''] @ ''b2'' # []" by simp
  have before: "\<forall>x \<in> set [''b1'']. not_found (reply ?ext sample_source ?cfg x)"
    by (simp add: sample_reply scenario_answer_def missing_def)
  have hit: "reply ?ext sample_source ?cfg ''b2'' = (Some scenario_reservation, None)"
    by (simp add: sample_reply scenario_answer_def)
  have ok: "\<not> HasError []" by simp
  have inputs: "Space ?cfg = StringValue ''s1''"
    "Blocks ?cfg = ListValue [StringValue ''b1'', StringValue ''b2'']"
    "Cidr ?cfg = StringNull" "Tags ?cfg = MapNull"
    by (simp_all add: sample_config_def)
  have model: "rm_Id ?model = StringValue ''X''"
    "rm_Cidr ?model = StringValue ''10.1.2.0/28''"
    "rm_Description ?model = StringValue ''spoke''"
    "rm_CreatedOn ?model = RFC3339 (StringValue ''2024-05-01T10:00:00Z'')"
    "rm_CreatedBy ?model = StringValue ''ops@example.org''"
    "rm_SettledOn ?model = RFC3339 (StringValue [])"
    "rm_SettledBy ?model = StringValue []"
    "rm_Status ?model = StringValue ''wait''"
    by (simp_all add: flattenReservation_def scenario_reservation_def sample_externals_def)
  have tags: "fst (MapValueFrom (tags scenario_reservation))
      = MapValue [''X-IPAM-RES-ID'' \<mapsto> StringValue ''X'']"
    by (auto simp: scenario_reservation_def MapValueFrom_cases fun_eq_iff)
  have "\<exists>recorded.
     State (fst (Read ?ext sample_source (sample_request [''b1'', ''b2''] ''X'')
          sample_response)) = Some recorded
   \<and> Space recorded = Space ?cfg \<and> Blocks recorded = Blocks ?cfg
   \<and> Id_attr recorded = rm_Id ?model \<and> Cidr recorded = rm_Cidr ?model
   \<and> Description recorded = rm_Description ?model
   \<and> CreatedOn recorded = rm_CreatedOn ?model \<and> CreatedBy recorded = rm_CreatedBy ?model
   \<and> SettledOn recorded = rm_SettledOn ?model \<and> SettledBy recorded = rm_SettledBy ?model
   \<and> Status recorded = rm_Status ?model
   \<and> Tags recorded = fst (MapValueFrom (tags scenario_reservation))"
    using C9_inputs_kept[OF sample_Get sample_ElementsAs ok split before hit refl refl,
        of sample_response]
    by (simp add: sample_State_Set)
  then show ?thesis
    unfolding inputs model tags by (simp add: inputs)
qed

section \<open>Configure and the client\<close>

text \<open>
  Claim C10. With nil provider data \<^verbatim>\<open>Configure\<close> changes neither the data source nor the
  response. With provider data of another type it leaves the client and adds the error
  \<^verbatim>\<open>Unexpected Data Source Configure Type\<close>. With a client pointer it stores the pointer
  and adds no diagnostic. The client of the data source changes only in the last case.
\<close>

theorem C10_configure:
  "(ProviderData req = nil \<longrightarrow> Configure d req resp = (d, resp))
   \<and> (\<forall>T. ProviderData req = OtherType T \<longrightarrow>
         fst (Configure d req resp) = d
       \<and> Diagnostics (snd (Configure d req resp)) =
           AddError (Diagnostics resp) ''Unexpected Data Source Configure Type''
             (''Expected *azureipam.Client, got: '' @ T
                @ ''. Please report this issue to the provider developers.'')
       \<and> ErrorDiagnostic ''Unexpected Data Source Configure Type''
             (''Expected *azureipam.Client, got: '' @ T
                @ ''. Please report this issue to the provider developers.'')
           \<in> set (Diagnostics (snd (Configure d req resp))))
   \<and> (\<forall>c. ProviderData req = ClientPointer c \<longrightarrow>
         Configure d req resp = (d\<lparr>client := c\<rparr>, resp))
   \<and> (client (fst (Configure d req resp)) \<noteq> client d \<longrightarrow>
         (\<exists>c. ProviderData req = ClientPointer c))"
  by (cases "ProviderData req") (simp_all add: Configure_def AddError_mem)

text \<open>Nil provider data, a client pointer, and a string in place of the client.\<close>

theorem C10_three_kinds:
  "Configure \<lparr>client = 0\<rparr> \<lparr>ProviderData = nil\<rparr> \<lparr>Diagnostics = []\<rparr>
     = (\<lparr>client = 0::nat\<rparr>, \<lparr>Diagnostics = []\<rparr>)
   \<and> Configure \<lparr>client = 0\<rparr> \<lparr>ProviderData = ClientPointer 7\<rparr> \<lparr>Diagnostics = []\<rparr>
     = (\<lparr>client = 7::nat\<rparr>, \<lparr>Diagnostics = []\<rparr>)
   \<and> fst (Configure \<lparr>client = 0\<rparr> \<lparr>ProviderData = OtherType ''string''\<rparr> \<lparr>Diagnostics = []\<rparr>)
     = \<lparr>client = 0::nat\<rparr>
   \<and> Diagnostics (snd (Configure \<lparr>client = 0::nat\<rparr> \<lparr>ProviderData = OtherType ''string''\<rparr>
         \<lparr>Diagnostics = []\<rparr>))
     = [ErrorDiagnostic ''Unexpected Data Source Configure Type''
          ''Expected *azureipam.Client, got: string. Please report this issue to the provider developers.'']"
  using C10_configure[of "\<lparr>ProviderData = nil\<rparr>" "\<lparr>client = 0::nat\<rparr>" "\<lparr>Diagnostics = []\<rparr>"]
    C10_configure[of "\<lparr>ProviderData = ClientPointer 7\<rparr>" "\<lparr>client = 0::nat\<rparr>"
      "\<lparr>Diagnostics = []\<rparr>"]
    C10_configure[of "\<lparr>ProviderData = OtherType ''string''\<rparr>" "\<lparr>client = 0::nat\<rparr>"
      "\<lparr>Diagnostics = []\<rparr>"]
  by (simp add: AddError_def)

end
